theory Spec2Isabelle
  imports Complex_Main
begin

section \<open>The live voice assistant (src/components/VoiceAssistant.tsx)\<close>

text \<open>
  The component keeps three kinds of data: React state (\<open>useState\<close>), mutable refs
  (\<open>useRef\<close>) and the browser and SDK objects the refs point to. The model is one record
  holding all three, and every callback of the component is a function from that record
  to the updated record.

  Browser and SDK objects are kept in stores indexed by a handle (a natural number), so
  that what happened to an object is still visible after the ref that pointed to it was
  set to \<open>null\<close>. A store is a total function; \<open>fresh\<close> is the next unused handle.

  Times (\<open>AudioContext.currentTime\<close>, \<open>AudioBuffer.duration\<close>, the start cursor) are
  JavaScript numbers; they are modelled as real numbers, so the rounding of the
  floating-point addition is not part of the model.
\<close>

subsection \<open>Data\<close>

datatype ConnectionState = cs_idle | cs_connecting | cs_connected | cs_error | cs_closed

datatype VoiceStatus = vs_Idle | vs_Listening | vs_Speaking | vs_Connecting

datatype AudioContextState = ac_suspended | ac_running | ac_closed

record TranscriptTurn =
  user :: string
  model :: string

text \<open>
  The constants of one render that the callbacks handed to \<open>ai.live.connect\<close> close
  over. \<open>currentInputTranscription\<close>, \<open>currentOutputTranscription\<close> and \<open>history\<close>
  are \<open>const\<close> bindings of the component function's body (lines 17, 26, 27): the
  callbacks are created once, inside one call of \<open>startConversation\<close>, and for the whole
  life of the session they read the values these constants had in the render that
  call belongs to, whatever the state setters do afterwards.
\<close>

record render_scope =
  scope_currentInputTranscription :: string
  scope_currentOutputTranscription :: string
  scope_history :: "TranscriptTurn list"

record LiveSession =
  session_closed :: bool
  callbacks_scope :: render_scope

text \<open>An \<open>AudioBufferSourceNode\<close>: the argument of its \<open>start\<close> call, the duration of its
  buffer, and whether \<open>stop\<close> was called on it.\<close>

record BufferSource =
  start_at :: real
  buffer_duration :: real
  source_stopped :: bool

record VoiceAssistant =
  connectionState :: ConnectionState
  voiceStatus :: VoiceStatus
  error :: "string option"
  currentInputTranscription :: string
  currentOutputTranscription :: string
  sessionPromiseRef :: "nat option"
  streamRef :: "nat option"
  inputAudioContextRef :: "nat option"
  outputAudioContextRef :: "nat option"
  scriptProcessorRef :: "nat option"
  mediaStreamSourceRef :: "nat option"
  nextStartTimeRef :: real
  sourcesRef :: "nat list"
  history :: "TranscriptTurn list"
  fresh :: nat
  sessions :: "nat \<Rightarrow> LiveSession"
  stream_tracks_stopped :: "nat \<Rightarrow> bool list"
  node_connected :: "nat \<Rightarrow> bool"
  context_state :: "nat \<Rightarrow> AudioContextState"
  buffer_sources :: "nat \<Rightarrow> BufferSource"

text \<open>
  \<open>sessionPromiseRef\<close> to \<open>mediaStreamSourceRef\<close> are the refs of lines 29-34 (\<open>None\<close> is
  \<open>null\<close>), \<open>nextStartTimeRef\<close> and \<open>sourcesRef\<close> those of lines 36-37; a JavaScript
  \<open>Set\<close> is a list without repetition, in insertion order. \<open>history\<close> is the prop the
  parent passes in. \<open>stream_tracks_stopped h\<close> lists, for the tracks of stream \<open>h\<close>,
  whether each was stopped.
\<close>

subsection \<open>stopConversation (lines 39-71)\<close>

text \<open>
  \<open>sessionPromiseRef.current.then(session => session.close())\<close> registers the close on
  the promise; the model marks the session closed at once. \<open>AudioContext.close()\<close>
  sets the context's state to \<open>closed\<close> (the Web Audio control-thread state, which the
  \<open>state\<close> attribute reads) inside the call.
\<close>

definition close_session :: "VoiceAssistant \<Rightarrow> VoiceAssistant" where
  "close_session s =
     (case sessionPromiseRef s of
        None \<Rightarrow> s
      | Some h \<Rightarrow>
          s\<lparr>sessions := (sessions s)(h := (sessions s h)\<lparr>session_closed := True\<rparr>),
            sessionPromiseRef := None\<rparr>)"

definition stop_stream :: "VoiceAssistant \<Rightarrow> VoiceAssistant" where
  "stop_stream s =
     (case streamRef s of
        None \<Rightarrow> s
      | Some h \<Rightarrow>
          s\<lparr>stream_tracks_stopped :=
              (stream_tracks_stopped s)(h := map (\<lambda>track. True) (stream_tracks_stopped s h)),
            streamRef := None\<rparr>)"

definition disconnect_scriptProcessor :: "VoiceAssistant \<Rightarrow> VoiceAssistant" where
  "disconnect_scriptProcessor s =
     (case scriptProcessorRef s of
        None \<Rightarrow> s
      | Some h \<Rightarrow> s\<lparr>node_connected := (node_connected s)(h := False), scriptProcessorRef := None\<rparr>)"

definition disconnect_mediaStreamSource :: "VoiceAssistant \<Rightarrow> VoiceAssistant" where
  "disconnect_mediaStreamSource s =
     (case mediaStreamSourceRef s of
        None \<Rightarrow> s
      | Some h \<Rightarrow> s\<lparr>node_connected := (node_connected s)(h := False), mediaStreamSourceRef := None\<rparr>)"

definition close_context :: "nat option \<Rightarrow> VoiceAssistant \<Rightarrow> VoiceAssistant" where
  "close_context r s =
     (case r of
        None \<Rightarrow> s
      | Some h \<Rightarrow>
          if context_state s h \<noteq> ac_closed
          then s\<lparr>context_state := (context_state s)(h := ac_closed)\<rparr>
          else s)"

definition stopConversation :: "VoiceAssistant \<Rightarrow> VoiceAssistant" where
  "stopConversation s =
     (let s1 = close_session s;
          s2 = stop_stream s1;
          s3 = disconnect_scriptProcessor s2;
          s4 = disconnect_mediaStreamSource s3;
          s5 = close_context (inputAudioContextRef s4) s4;
          s6 = close_context (outputAudioContextRef s5) s5
      in s6\<lparr>connectionState := cs_idle, voiceStatus := vs_Idle\<rparr>)"

text \<open>The transport error callback (lines 160-166), the close callback (lines 167-171)
  and the effect cleanup that runs when the component is disposed (lines 200-204).
  State setters called one after the other on the same state leave the last value.\<close>

definition connection_error_message :: string where
  "connection_error_message =
     ''A connection error occurred. Please check your network and try starting the conversation again.''"

definition onerror :: "VoiceAssistant \<Rightarrow> VoiceAssistant" where
  "onerror s =
     stopConversation
       (s\<lparr>error := Some connection_error_message,
          connectionState := cs_error,
          voiceStatus := vs_Idle\<rparr>)"

definition onclose :: "VoiceAssistant \<Rightarrow> VoiceAssistant" where
  "onclose s = stopConversation (s\<lparr>connectionState := cs_closed, voiceStatus := vs_Idle\<rparr>)"

definition effect_cleanup :: "VoiceAssistant \<Rightarrow> VoiceAssistant" where
  "effect_cleanup s = stopConversation s"

subsection \<open>startConversation (lines 73-198) and onopen (lines 93-111)\<close>

text \<open>
  What a step of the \<open>try\<close> block can throw: a value that is not an \<open>Error\<close>, or an
  \<open>Error\<close> with its \<open>name\<close> and \<open>message\<close>. The outcome of each fallible step is an input
  of the model: \<open>getUserMedia\<close> gives a stream (here: its number of tracks) or throws,
  and each of the two constructors and \<open>ai.live.connect\<close> may throw.
\<close>

datatype thrown = NonError | Error_obj string string

record start_outcomes =
  getUserMedia :: "thrown + nat"
  new_GoogleGenAI :: "thrown option"
  new_AudioContext :: "thrown option"
  live_connect :: "thrown option"

text \<open>\<open>String.prototype.includes\<close>.\<close>

fun starts_with :: "string \<Rightarrow> string \<Rightarrow> bool" where
  "starts_with s [] = True"
| "starts_with [] (p # ps) = False"
| "starts_with (c # cs) (p # ps) = (c = p \<and> starts_with cs ps)"

fun js_includes :: "string \<Rightarrow> string \<Rightarrow> bool" where
  "js_includes [] sub = (sub = [])"
| "js_includes (c # cs) sub = (starts_with (c # cs) sub \<or> js_includes cs sub)"

definition microphone_denied_message :: string where
  "microphone_denied_message =
     ''Microphone access was denied. Please allow microphone permissions in your browser settings and try again.''"

definition unexpected_error_message :: string where
  "unexpected_error_message = ''An unexpected error occurred.''"

text \<open>Lines 186-193.\<close>

definition errorMessage :: "thrown \<Rightarrow> string" where
  "errorMessage err =
     (case err of
        NonError \<Rightarrow> unexpected_error_message
      | Error_obj name message \<Rightarrow>
          if name = ''NotAllowedError'' \<or> name = ''PermissionDeniedError''
             \<or> js_includes message ''Permission denied''
          then microphone_denied_message
          else message)"

text \<open>
  The \<open>try\<close> block (lines 83-182). What a step did before a later step throws stays
  done, so the result is the state reached together with what was thrown, if anything.
  The callbacks object is created here, closing over the constants of the render
  (\<open>scope\<close>); the model keeps that scope with the session. A new \<open>AudioContext\<close> is not
  closed; its state is taken to be \<open>running\<close>.
\<close>

definition start_try ::
  "start_outcomes \<Rightarrow> render_scope \<Rightarrow> VoiceAssistant \<Rightarrow> VoiceAssistant \<times> thrown option" where
  "start_try env scope s =
     (case getUserMedia env of
        Inl e \<Rightarrow> (s, Some e)
      | Inr n \<Rightarrow>
          let st = fresh s;
              s1 = s\<lparr>fresh := Suc st,
                     stream_tracks_stopped := (stream_tracks_stopped s)(st := replicate n False),
                     streamRef := Some st\<rparr>
          in case new_GoogleGenAI env of
               Some e \<Rightarrow> (s1, Some e)
             | None \<Rightarrow>
                 (case new_AudioContext env of
                    Some e \<Rightarrow> (s1, Some e)
                  | None \<Rightarrow>
                      let c = fresh s1;
                          s2 = s1\<lparr>fresh := Suc c,
                                  context_state := (context_state s1)(c := ac_running),
                                  outputAudioContextRef := Some c\<rparr>
                      in case live_connect env of
                           Some e \<Rightarrow> (s2, Some e)
                         | None \<Rightarrow>
                             let p = fresh s2;
                                 s3 = s2\<lparr>fresh := Suc p,
                                         sessions := (sessions s2)
                                           (p := \<lparr>session_closed = False, callbacks_scope = scope\<rparr>),
                                         sessionPromiseRef := Some p\<rparr>
                             in (s3, None)))"

text \<open>
  \<open>startConversation\<close> is re-created by every render and the button calls the one of
  the latest render, so its \<open>connectionState\<close> is the current state; the scope its
  callbacks capture holds the values of that same render, read before the setters of
  lines 76-80 take effect.
\<close>

definition startConversation :: "start_outcomes \<Rightarrow> VoiceAssistant \<Rightarrow> VoiceAssistant" where
  "startConversation env s =
     (if connectionState s \<noteq> cs_idle \<and> connectionState s \<noteq> cs_error
         \<and> connectionState s \<noteq> cs_closed
      then s
      else
        let scope = \<lparr>scope_currentInputTranscription = currentInputTranscription s,
                     scope_currentOutputTranscription = currentOutputTranscription s,
                     scope_history = history s\<rparr>;
            s0 = s\<lparr>connectionState := cs_connecting,
                   voiceStatus := vs_Connecting,
                   error := None,
                   currentInputTranscription := [],
                   currentOutputTranscription := []\<rparr>
        in case start_try env scope s0 of
             (s1, None) \<Rightarrow> s1
           | (s1, Some err) \<Rightarrow>
               s1\<lparr>error := Some (errorMessage err),
                  connectionState := cs_error,
                  voiceStatus := vs_Idle\<rparr>)"

text \<open>
  \<open>onopen\<close>: \<open>createMediaStreamSource(streamRef.current!)\<close> throws when the stream ref
  is \<open>null\<close>, which ends the callback there.
\<close>

definition onopen :: "VoiceAssistant \<Rightarrow> VoiceAssistant" where
  "onopen s =
     (let s1 = s\<lparr>connectionState := cs_connected\<rparr>;
          c = fresh s1;
          s2 = s1\<lparr>fresh := Suc c,
                  context_state := (context_state s1)(c := ac_running),
                  inputAudioContextRef := Some c\<rparr>
      in case streamRef s2 of
           None \<Rightarrow> s2
         | Some st \<Rightarrow>
             let g = fresh s2;
                 s3 = s2\<lparr>fresh := Suc g, mediaStreamSourceRef := Some g\<rparr>;
                 p = fresh s3;
                 s4 = s3\<lparr>fresh := Suc p, scriptProcessorRef := Some p\<rparr>
             in s4\<lparr>node_connected := (node_connected s4)(g := True, p := True)\<rparr>)"

subsection \<open>onmessage (lines 112-159)\<close>

record Transcription =
  transcription_text :: string

record InlineData =
  inline_data :: "string option"

record Part =
  inlineData :: "InlineData option"

record Content =
  parts :: "Part list"

record LiveServerContent =
  modelTurn :: "Content option"
  inputTranscription :: "Transcription option"
  outputTranscription :: "Transcription option"
  turnComplete :: "bool option"
  interrupted :: "bool option"

record LiveServerMessage =
  serverContent :: "LiveServerContent option"

text \<open>Line 113, \<open>message.serverContent?.modelTurn?.parts[0]?.inlineData?.data\<close>; \<open>parts\<close> is
  taken to be an array whenever \<open>modelTurn\<close> is there.\<close>

definition base64Audio_of :: "LiveServerMessage \<Rightarrow> string option" where
  "base64Audio_of message =
     (case serverContent message of
        None \<Rightarrow> None
      | Some sc \<Rightarrow>
          (case modelTurn sc of
             None \<Rightarrow> None
           | Some mt \<Rightarrow>
               (case parts mt of
                  [] \<Rightarrow> None
                | p # ps \<Rightarrow>
                    (case inlineData p of
                       None \<Rightarrow> None
                     | Some b \<Rightarrow> inline_data b))))"

definition inputTranscription_of :: "LiveServerMessage \<Rightarrow> Transcription option" where
  "inputTranscription_of message =
     (case serverContent message of None \<Rightarrow> None | Some sc \<Rightarrow> inputTranscription sc)"

definition outputTranscription_of :: "LiveServerMessage \<Rightarrow> Transcription option" where
  "outputTranscription_of message =
     (case serverContent message of None \<Rightarrow> None | Some sc \<Rightarrow> outputTranscription sc)"

definition turnComplete_of :: "LiveServerMessage \<Rightarrow> bool" where
  "turnComplete_of message =
     (case serverContent message of None \<Rightarrow> False | Some sc \<Rightarrow> turnComplete sc = Some True)"

definition interrupted_of :: "LiveServerMessage \<Rightarrow> bool" where
  "interrupted_of message =
     (case serverContent message of None \<Rightarrow> False | Some sc \<Rightarrow> interrupted sc = Some True)"

text \<open>A string in a condition: the empty string is falsy, every other string truthy.\<close>

definition truthy :: "string \<Rightarrow> bool" where
  "truthy x = (x \<noteq> [])"

text \<open>\<open>Set.prototype.add\<close> on the insertion-ordered list.\<close>

definition set_add :: "nat \<Rightarrow> nat list \<Rightarrow> nat list" where
  "set_add h hs = (if h \<in> set hs then hs else hs @ [h])"

text \<open>
  Lines 113-126. The handler of a message runs to its end before the next message is
  handled. \<open>now\<close> is \<open>outputAudioContextRef.current.currentTime\<close> as read on line 116. \<open>decodeAudioData\<close> and \<open>decode\<close> come from \<open>utils/audio\<close>, which is not among the
  sources; the model takes as a parameter \<open>duration_of\<close>, the duration of the buffer they
  decode from a payload.
\<close>

definition play_audio ::
  "(string \<Rightarrow> real) \<Rightarrow> real \<Rightarrow> LiveServerMessage \<Rightarrow> VoiceAssistant \<Rightarrow> VoiceAssistant" where
  "play_audio duration_of now message s =
     (case base64Audio_of message of
        None \<Rightarrow> s
      | Some base64Audio \<Rightarrow>
          if truthy base64Audio \<and> outputAudioContextRef s \<noteq> None
          then
            let s1 = s\<lparr>voiceStatus := vs_Speaking,
                       nextStartTimeRef := max (nextStartTimeRef s) now\<rparr>;
                d = duration_of base64Audio;
                source = fresh s1;
                s2 = s1\<lparr>fresh := Suc source,
                        buffer_sources := (buffer_sources s1)
                          (source := \<lparr>start_at = nextStartTimeRef s1,
                                      buffer_duration = d,
                                      source_stopped = False\<rparr>)\<rparr>;
                s3 = s2\<lparr>nextStartTimeRef := nextStartTimeRef s2 + d\<rparr>
            in s3\<lparr>sourcesRef := set_add source (sourcesRef s3)\<rparr>
          else s)"

text \<open>Lines 128-140: the fragments of this message, and the setters that append them.\<close>

definition tempInput_of :: "LiveServerMessage \<Rightarrow> string" where
  "tempInput_of message =
     (case inputTranscription_of message of None \<Rightarrow> [] | Some t \<Rightarrow> transcription_text t)"

definition tempOutput_of :: "LiveServerMessage \<Rightarrow> string" where
  "tempOutput_of message =
     (case outputTranscription_of message of None \<Rightarrow> [] | Some t \<Rightarrow> transcription_text t)"

definition note_input :: "LiveServerMessage \<Rightarrow> VoiceAssistant \<Rightarrow> VoiceAssistant" where
  "note_input message s =
     (case inputTranscription_of message of
        None \<Rightarrow> s
      | Some t \<Rightarrow>
          s\<lparr>voiceStatus := vs_Listening,
            currentInputTranscription := currentInputTranscription s @ transcription_text t\<rparr>)"

definition note_output :: "LiveServerMessage \<Rightarrow> VoiceAssistant \<Rightarrow> VoiceAssistant" where
  "note_output message s =
     (case outputTranscription_of message of
        None \<Rightarrow> s
      | Some t \<Rightarrow>
          s\<lparr>voiceStatus := vs_Speaking,
            currentOutputTranscription := currentOutputTranscription s @ transcription_text t\<rparr>)"

text \<open>
  \<open>String.prototype.trim\<close>. A \<open>char\<close> stands for a code unit below 256; the white space
  and line terminators of JavaScript in that range are U+0009 to U+000D, U+0020 and
  U+00A0.
\<close>

definition js_whitespace :: "char \<Rightarrow> bool" where
  "js_whitespace c =
     (let n = (of_char c :: nat) in (9 \<le> n \<and> n \<le> 13) \<or> n = 32 \<or> n = 160)"

definition trim :: "string \<Rightarrow> string" where
  "trim s = rev (dropWhile js_whitespace (rev (dropWhile js_whitespace s)))"

text \<open>
  \<open>onHistoryUpdate\<close> is a prop. The parent (\<open>handleUpdateVoiceChat\<close>, src/types.ts line
  467) stores the array it is given as the conversation's transcripts, and hands the
  stored transcripts back as the \<open>history\<close> prop.
\<close>

definition onHistoryUpdate :: "TranscriptTurn list \<Rightarrow> VoiceAssistant \<Rightarrow> VoiceAssistant" where
  "onHistoryUpdate newHistory s = s\<lparr>history := newHistory\<rparr>"

text \<open>Lines 142-152. \<open>currentInputTranscription\<close>, \<open>currentOutputTranscription\<close> and
  \<open>history\<close> are the constants of the callback's scope.\<close>

definition complete_turn ::
  "render_scope \<Rightarrow> LiveServerMessage \<Rightarrow> VoiceAssistant \<Rightarrow> VoiceAssistant" where
  "complete_turn scope message s =
     (if turnComplete_of message
      then
        let s1 = s\<lparr>voiceStatus := vs_Listening\<rparr>;
            fullInput = scope_currentInputTranscription scope @ tempInput_of message;
            fullOutput = scope_currentOutputTranscription scope @ tempOutput_of message;
            s2 = (if truthy (trim fullInput) \<or> truthy (trim fullOutput)
                  then onHistoryUpdate
                         (scope_history scope @ [\<lparr>user = fullInput, model = fullOutput\<rparr>]) s1
                  else s1)
        in s2\<lparr>currentInputTranscription := [], currentOutputTranscription := []\<rparr>
      else s)"

text \<open>Lines 154-158.\<close>

definition stop_source :: "nat \<Rightarrow> (nat \<Rightarrow> BufferSource) \<Rightarrow> (nat \<Rightarrow> BufferSource)" where
  "stop_source h B = B(h := (B h)\<lparr>source_stopped := True\<rparr>)"

definition handle_interrupted :: "LiveServerMessage \<Rightarrow> VoiceAssistant \<Rightarrow> VoiceAssistant" where
  "handle_interrupted message s =
     (if interrupted_of message
      then s\<lparr>buffer_sources := fold stop_source (sourcesRef s) (buffer_sources s),
             sourcesRef := [],
             nextStartTimeRef := 0\<rparr>
      else s)"

definition onmessage ::
  "render_scope \<Rightarrow> (string \<Rightarrow> real) \<Rightarrow> real \<Rightarrow> LiveServerMessage \<Rightarrow> VoiceAssistant
     \<Rightarrow> VoiceAssistant" where
  "onmessage scope duration_of now message s =
     handle_interrupted message
       (complete_turn scope message
          (note_output message
             (note_input message
                (play_audio duration_of now message s))))"

text \<open>The SDK calls the callbacks of the session; a message of session \<open>h\<close> runs the
  \<open>onmessage\<close> that was created with that session.\<close>

definition deliver ::
  "nat \<Rightarrow> (string \<Rightarrow> real) \<Rightarrow> real \<Rightarrow> LiveServerMessage \<Rightarrow> VoiceAssistant \<Rightarrow> VoiceAssistant" where
  "deliver h duration_of now message s =
     onmessage (callbacks_scope (sessions s h)) duration_of now message s"

text \<open>Messages handled one after the other, each with the clock reading at its time.\<close>

fun feed ::
  "render_scope \<Rightarrow> (string \<Rightarrow> real) \<Rightarrow> (LiveServerMessage \<times> real) list \<Rightarrow> VoiceAssistant
     \<Rightarrow> VoiceAssistant" where
  "feed scope duration_of [] s = s"
| "feed scope duration_of ((message, now) # rest) s =
     feed scope duration_of rest (onmessage scope duration_of now message s)"

subsection \<open>Concrete states and messages\<close>

text \<open>The component as mounted (lines 22-37), with the \<open>history\<close> prop it is given.\<close>

definition mounted :: "TranscriptTurn list \<Rightarrow> VoiceAssistant" where
  "mounted h =
     \<lparr>connectionState = cs_idle,
      voiceStatus = vs_Idle,
      error = None,
      currentInputTranscription = [],
      currentOutputTranscription = [],
      sessionPromiseRef = None,
      streamRef = None,
      inputAudioContextRef = None,
      outputAudioContextRef = None,
      scriptProcessorRef = None,
      mediaStreamSourceRef = None,
      nextStartTimeRef = 0,
      sourcesRef = [],
      history = h,
      fresh = 0,
      sessions = (\<lambda>x. \<lparr>session_closed = False,
                       callbacks_scope = \<lparr>scope_currentInputTranscription = [],
                                          scope_currentOutputTranscription = [],
                                          scope_history = []\<rparr>\<rparr>),
      stream_tracks_stopped = (\<lambda>x. []),
      node_connected = (\<lambda>x. False),
      context_state = (\<lambda>x. ac_suspended),
      buffer_sources = (\<lambda>x. \<lparr>start_at = 0, buffer_duration = 0, source_stopped = False\<rparr>)\<rparr>"

definition all_granted :: start_outcomes where
  "all_granted =
     \<lparr>getUserMedia = Inr 1, new_GoogleGenAI = None, new_AudioContext = None,
      live_connect = None\<rparr>"

definition connecting_state :: VoiceAssistant where
  "connecting_state = startConversation all_granted (mounted [])"

definition connected_state :: VoiceAssistant where
  "connected_state = onopen connecting_state"

definition empty_content :: LiveServerContent where
  "empty_content =
     \<lparr>modelTurn = None, inputTranscription = None, outputTranscription = None,
      turnComplete = None, interrupted = None\<rparr>"

definition audio_content :: "string \<Rightarrow> LiveServerContent" where
  "audio_content payload =
     empty_content\<lparr>modelTurn :=
       Some \<lparr>parts = [\<lparr>inlineData = Some \<lparr>inline_data = Some payload\<rparr>\<rparr>]\<rparr>\<rparr>"

definition msg :: "LiveServerContent \<Rightarrow> LiveServerMessage" where
  "msg c = \<lparr>serverContent = Some c\<rparr>"

subsection \<open>Auxiliary definitions\<close>

text \<open>A message is playable when line 114 finds a non-empty audio payload in it;
  \<open>payload_of\<close> is that payload.\<close>

definition playable :: "LiveServerMessage \<Rightarrow> bool" where
  "playable message =
     (case base64Audio_of message of None \<Rightarrow> False | Some a \<Rightarrow> truthy a)"

definition payload_of :: "LiveServerMessage \<Rightarrow> string" where
  "payload_of message = (case base64Audio_of message of None \<Rightarrow> [] | Some a \<Rightarrow> a)"

text \<open>For a list of messages fed to the handler from state \<open>s\<close>: the source node
  created for the \<open>k\<close>-th of them (counting from 0) when each creates one, the start
  cursor before the \<open>k\<close>-th is handled, and the durations of their buffers.\<close>

definition unit_at ::
  "render_scope \<Rightarrow> (string \<Rightarrow> real) \<Rightarrow> (LiveServerMessage \<times> real) list \<Rightarrow> VoiceAssistant
     \<Rightarrow> nat \<Rightarrow> BufferSource" where
  "unit_at sc dur us s k = buffer_sources (feed sc dur us s) (fresh s + k)"

definition cursor_before ::
  "render_scope \<Rightarrow> (string \<Rightarrow> real) \<Rightarrow> (LiveServerMessage \<times> real) list \<Rightarrow> VoiceAssistant
     \<Rightarrow> nat \<Rightarrow> real" where
  "cursor_before sc dur us s k = nextStartTimeRef (feed sc dur (take k us) s)"

definition durations :: "(string \<Rightarrow> real) \<Rightarrow> (LiveServerMessage \<times> real) list \<Rightarrow> real list" where
  "durations dur us = map (\<lambda>(m, t). dur (payload_of m)) us"

text \<open>What the \<open>try\<close> block of \<open>startConversation\<close> throws: the value thrown by its first
  failing step, if any.\<close>

definition first_thrown :: "start_outcomes \<Rightarrow> thrown option" where
  "first_thrown env =
     (case getUserMedia env of
        Inl e \<Rightarrow> Some e
      | Inr n \<Rightarrow>
          (case new_GoogleGenAI env of
             Some e \<Rightarrow> Some e
           | None \<Rightarrow>
               (case new_AudioContext env of
                  Some e \<Rightarrow> Some e
                | None \<Rightarrow> live_connect env)))"

text \<open>The guard of line 74, read positively.\<close>

definition may_start :: "VoiceAssistant \<Rightarrow> bool" where
  "may_start s =
     (connectionState s = cs_idle \<or> connectionState s = cs_error \<or> connectionState s = cs_closed)"

text \<open>Two start-ups that fail: the browser refuses the microphone; the microphone is
  granted and the SDK constructor throws an error whose message speaks of a permission.\<close>

definition microphone_refused :: start_outcomes where
  "microphone_refused =
     \<lparr>getUserMedia = Inl (Error_obj ''NotAllowedError'' ''Permission denied''),
      new_GoogleGenAI = None, new_AudioContext = None, live_connect = None\<rparr>"

definition sdk_refused :: start_outcomes where
  "sdk_refused =
     \<lparr>getUserMedia = Inr 1,
      new_GoogleGenAI = Some (Error_obj ''Error'' ''Permission denied to access property''),
      new_AudioContext = None, live_connect = None\<rparr>"

text \<open>The scope the callbacks of the first session capture, some messages, a decoder
  whose every buffer lasts half a second, and the connected state after one unit was
  scheduled at clock 0.\<close>

definition mount_scope :: render_scope where
  "mount_scope =
     \<lparr>scope_currentInputTranscription = [], scope_currentOutputTranscription = [],
      scope_history = []\<rparr>"

definition unit_message :: LiveServerMessage where
  "unit_message = msg (audio_content ''AAAA'')"

definition interruption :: LiveServerMessage where
  "interruption = msg (empty_content\<lparr>interrupted := Some True\<rparr>)"

definition interrupting_unit :: LiveServerMessage where
  "interrupting_unit = msg ((audio_content ''AAAA'')\<lparr>interrupted := Some True\<rparr>)"

definition heard_hello :: LiveServerMessage where
  "heard_hello =
     msg (empty_content\<lparr>inputTranscription := Some \<lparr>transcription_text = ''hello''\<rparr>\<rparr>)"

definition turn_done :: LiveServerMessage where
  "turn_done = msg (empty_content\<lparr>turnComplete := Some True\<rparr>)"

definition half_second :: "string \<Rightarrow> real" where
  "half_second payload = 1 / 2"

definition playing_state :: VoiceAssistant where
  "playing_state = deliver 2 half_second 0 unit_message connected_state"

text \<open>Three units that arrive on time, on time and late, for buffers of half a second;
  two units that arrive with the clock ahead of the cursor, for buffers of one second.\<close>

definition one_second :: "string \<Rightarrow> real" where
  "one_second payload = 1"

definition three_units :: "(LiveServerMessage \<times> real) list" where
  "three_units = [(unit_message, 0), (unit_message, 1 / 4), (unit_message, 2)]"

definition late_units :: "(LiveServerMessage \<times> real) list" where
  "late_units = [(unit_message, 5), (unit_message, 11 / 2)]"

section \<open>Auxiliary facts\<close>

subsection \<open>The teardown in closed form\<close>

text \<open>\<open>upd_at r f S\<close>: the store \<open>S\<close> after \<open>f\<close> was applied to the object the ref \<open>r\<close> points
  to, if it points to one.\<close>

definition upd_at :: "nat option \<Rightarrow> ('a \<Rightarrow> 'a) \<Rightarrow> (nat \<Rightarrow> 'a) \<Rightarrow> (nat \<Rightarrow> 'a)" where
  "upd_at r f S = (case r of None \<Rightarrow> S | Some h \<Rightarrow> S(h := f (S h)))"

lemma upd_at_None [simp]: "upd_at None f S = S"
  by (simp add: upd_at_def)

lemma upd_at_Some [simp]: "upd_at (Some h) f S = S(h := f (S h))"
  by (simp add: upd_at_def)

lemma close_session_eq:
  "close_session s =
     s\<lparr>sessions := upd_at (sessionPromiseRef s) (\<lambda>x. x\<lparr>session_closed := True\<rparr>) (sessions s),
       sessionPromiseRef := None\<rparr>"
  by (cases "sessionPromiseRef s") (simp_all add: close_session_def)

lemma stop_stream_eq:
  "stop_stream s =
     s\<lparr>stream_tracks_stopped :=
         upd_at (streamRef s) (map (\<lambda>track. True)) (stream_tracks_stopped s),
       streamRef := None\<rparr>"
  by (cases "streamRef s") (simp_all add: stop_stream_def)

lemma disconnect_scriptProcessor_eq:
  "disconnect_scriptProcessor s =
     s\<lparr>node_connected := upd_at (scriptProcessorRef s) (\<lambda>c. False) (node_connected s),
       scriptProcessorRef := None\<rparr>"
  by (cases "scriptProcessorRef s") (simp_all add: disconnect_scriptProcessor_def)

lemma disconnect_mediaStreamSource_eq:
  "disconnect_mediaStreamSource s =
     s\<lparr>node_connected := upd_at (mediaStreamSourceRef s) (\<lambda>c. False) (node_connected s),
       mediaStreamSourceRef := None\<rparr>"
  by (cases "mediaStreamSourceRef s") (simp_all add: disconnect_mediaStreamSource_def)

lemma close_context_eq:
  "close_context r s = s\<lparr>context_state := upd_at r (\<lambda>c. ac_closed) (context_state s)\<rparr>"
  by (cases r) (auto simp: close_context_def fun_upd_idem)

lemma stopConversation_eq:
  "stopConversation s =
     s\<lparr>sessions := upd_at (sessionPromiseRef s) (\<lambda>x. x\<lparr>session_closed := True\<rparr>) (sessions s),
       sessionPromiseRef := None,
       stream_tracks_stopped :=
         upd_at (streamRef s) (map (\<lambda>track. True)) (stream_tracks_stopped s),
       streamRef := None,
       node_connected :=
         upd_at (mediaStreamSourceRef s) (\<lambda>c. False)
           (upd_at (scriptProcessorRef s) (\<lambda>c. False) (node_connected s)),
       scriptProcessorRef := None,
       mediaStreamSourceRef := None,
       context_state :=
         upd_at (outputAudioContextRef s) (\<lambda>c. ac_closed)
           (upd_at (inputAudioContextRef s) (\<lambda>c. ac_closed) (context_state s)),
       connectionState := cs_idle,
       voiceStatus := vs_Idle\<rparr>"
  unfolding stopConversation_def Let_def
  by (simp add: close_session_eq stop_stream_eq disconnect_scriptProcessor_eq
      disconnect_mediaStreamSource_eq close_context_eq)

lemma stopConversation_fields:
  "connectionState (stopConversation s) = cs_idle"
  "voiceStatus (stopConversation s) = vs_Idle"
  "error (stopConversation s) = error s"
  "currentInputTranscription (stopConversation s) = currentInputTranscription s"
  "currentOutputTranscription (stopConversation s) = currentOutputTranscription s"
  "sessionPromiseRef (stopConversation s) = None"
  "streamRef (stopConversation s) = None"
  "inputAudioContextRef (stopConversation s) = inputAudioContextRef s"
  "outputAudioContextRef (stopConversation s) = outputAudioContextRef s"
  "scriptProcessorRef (stopConversation s) = None"
  "mediaStreamSourceRef (stopConversation s) = None"
  "nextStartTimeRef (stopConversation s) = nextStartTimeRef s"
  "sourcesRef (stopConversation s) = sourcesRef s"
  "history (stopConversation s) = history s"
  "fresh (stopConversation s) = fresh s"
  "sessions (stopConversation s) =
     upd_at (sessionPromiseRef s) (\<lambda>x. x\<lparr>session_closed := True\<rparr>) (sessions s)"
  "stream_tracks_stopped (stopConversation s) =
     upd_at (streamRef s) (map (\<lambda>track. True)) (stream_tracks_stopped s)"
  "node_connected (stopConversation s) =
     upd_at (mediaStreamSourceRef s) (\<lambda>c. False)
       (upd_at (scriptProcessorRef s) (\<lambda>c. False) (node_connected s))"
  "context_state (stopConversation s) =
     upd_at (outputAudioContextRef s) (\<lambda>c. ac_closed)
       (upd_at (inputAudioContextRef s) (\<lambda>c. ac_closed) (context_state s))"
  "buffer_sources (stopConversation s) = buffer_sources s"
  "VoiceAssistant.more (stopConversation s) = VoiceAssistant.more s"
  by (simp_all add: stopConversation_eq)

lemma upd_at_const_twice:
  "upd_at r (\<lambda>c. k) (upd_at q (\<lambda>c. k) (upd_at r (\<lambda>c. k) (upd_at q (\<lambda>c. k) C))) =
   upd_at r (\<lambda>c. k) (upd_at q (\<lambda>c. k) C)"
  by (auto simp: upd_at_def fun_eq_iff split: option.splits)

subsection \<open>The concrete states, field by field\<close>

lemma connecting_state_eq:
  "connecting_state =
     (mounted [])\<lparr>connectionState := cs_connecting, voiceStatus := vs_Connecting,
        streamRef := Some 0, outputAudioContextRef := Some 1, sessionPromiseRef := Some 2,
        fresh := 3,
        stream_tracks_stopped := (stream_tracks_stopped (mounted []))(0 := [False]),
        context_state := (context_state (mounted []))(1 := ac_running)\<rparr>"
  by (simp add: connecting_state_def startConversation_def start_try_def all_granted_def
      mounted_def Let_def fun_eq_iff)

lemma connected_state_fields:
  "connectionState connected_state = cs_connected"
  "voiceStatus connected_state = vs_Connecting"
  "error connected_state = None"
  "currentInputTranscription connected_state = []"
  "currentOutputTranscription connected_state = []"
  "sessionPromiseRef connected_state = Some 2"
  "streamRef connected_state = Some 0"
  "inputAudioContextRef connected_state = Some 3"
  "outputAudioContextRef connected_state = Some 1"
  "scriptProcessorRef connected_state = Some 5"
  "mediaStreamSourceRef connected_state = Some 4"
  "nextStartTimeRef connected_state = 0"
  "sourcesRef connected_state = []"
  "history connected_state = []"
  "fresh connected_state = 6"
  "callbacks_scope (sessions connected_state 2) =
     \<lparr>scope_currentInputTranscription = [], scope_currentOutputTranscription = [],
      scope_history = []\<rparr>"
  "session_closed (sessions connected_state 2) = False"
  "stream_tracks_stopped connected_state 0 = [False]"
  "node_connected connected_state 4 = True"
  "node_connected connected_state 5 = True"
  "context_state connected_state 1 = ac_running"
  "context_state connected_state 3 = ac_running"
  by (simp_all add: connected_state_def onopen_def connecting_state_eq mounted_def Let_def)

section \<open>The teardown\<close>

text \<open>
  C7. Stopping twice in a row is the same as stopping once: the second call finds every
  ref it clears already \<open>null\<close> and both audio contexts already closed, so it changes
  nothing, and no step of the teardown can fail. The teardown is one function: the
  effect cleanup of a disposed component is \<open>stopConversation\<close> itself, the close
  callback ends in exactly the state an explicit stop gives, and the error callback
  ends in that state with the error message added.
\<close>

theorem stop_idempotent_and_shared:
  "stopConversation (stopConversation s) = stopConversation s
   \<and> effect_cleanup s = stopConversation s
   \<and> onclose s = stopConversation s
   \<and> onerror s = (stopConversation s)\<lparr>error := Some connection_error_message\<rparr>"
proof -
  have idem: "stopConversation (stopConversation s) = stopConversation s"
    by (rule VoiceAssistant.equality; simp add: stopConversation_fields upd_at_const_twice)
  have cl: "onclose s = stopConversation s"
    by (simp add: onclose_def stopConversation_eq)
  have er: "onerror s = (stopConversation s)\<lparr>error := Some connection_error_message\<rparr>"
    by (simp add: onerror_def stopConversation_eq)
  show ?thesis
    using idem cl er by (simp add: effect_cleanup_def)
qed

text \<open>
  C3, as the code has it. From any state (so from connecting, connected and error)
  \<open>stopConversation\<close> ends in \<open>idle\<close>; the refs of the session promise, the microphone
  stream, the script processor and the stream source node are \<open>null\<close>, and what they
  pointed to was released (session closed, every track stopped, nodes disconnected).
  The two audio-context refs are not cleared: they keep their handles, and the
  contexts they point to are closed.
\<close>

theorem stop_ends_idle_and_releases:
  "connectionState (stopConversation s) = cs_idle
   \<and> sessionPromiseRef (stopConversation s) = None
   \<and> streamRef (stopConversation s) = None
   \<and> scriptProcessorRef (stopConversation s) = None
   \<and> mediaStreamSourceRef (stopConversation s) = None
   \<and> inputAudioContextRef (stopConversation s) = inputAudioContextRef s
   \<and> outputAudioContextRef (stopConversation s) = outputAudioContextRef s
   \<and> (\<forall>c. inputAudioContextRef s = Some c \<longrightarrow> context_state (stopConversation s) c = ac_closed)
   \<and> (\<forall>c. outputAudioContextRef s = Some c \<longrightarrow> context_state (stopConversation s) c = ac_closed)
   \<and> (\<forall>h. sessionPromiseRef s = Some h \<longrightarrow> session_closed (sessions (stopConversation s) h))
   \<and> (\<forall>h. streamRef s = Some h \<longrightarrow>
         stream_tracks_stopped (stopConversation s) h = map (\<lambda>track. True) (stream_tracks_stopped s h))
   \<and> (\<forall>h. scriptProcessorRef s = Some h \<longrightarrow> \<not> node_connected (stopConversation s) h)
   \<and> (\<forall>h. mediaStreamSourceRef s = Some h \<longrightarrow> \<not> node_connected (stopConversation s) h)"
  by (simp add: stopConversation_fields upd_at_def split: option.splits)

text \<open>The theorem at the connected state reached by a start and the open callback.\<close>

theorem stop_ends_idle_and_releases_witness:
  "connectionState connected_state = cs_connected
   \<and> connectionState (stopConversation connected_state) = cs_idle
   \<and> sessionPromiseRef (stopConversation connected_state) = None
   \<and> streamRef (stopConversation connected_state) = None
   \<and> scriptProcessorRef (stopConversation connected_state) = None
   \<and> mediaStreamSourceRef (stopConversation connected_state) = None
   \<and> context_state (stopConversation connected_state) 3 = ac_closed
   \<and> context_state (stopConversation connected_state) 1 = ac_closed
   \<and> session_closed (sessions (stopConversation connected_state) 2)
   \<and> stream_tracks_stopped (stopConversation connected_state) 0 = [True]
   \<and> \<not> node_connected (stopConversation connected_state) 5
   \<and> \<not> node_connected (stopConversation connected_state) 4"
  using stop_ends_idle_and_releases [of connected_state]
  by (simp add: connected_state_fields)

text \<open>
  C3 as stated asks for no retained audio-context handle. After a stop from the
  connected state both audio-context refs still hold their handles.
\<close>

theorem stop_keeps_context_handles:
  "connectionState connected_state = cs_connected
   \<and> inputAudioContextRef (stopConversation connected_state) = Some 3
   \<and> outputAudioContextRef (stopConversation connected_state) = Some 1"
  by (simp add: connected_state_fields stopConversation_fields)

text \<open>
  C4. The error callback sets the state to \<open>error\<close> and then calls \<open>stopConversation\<close>,
  whose last setter puts \<open>idle\<close>: a transport error in the connected state leaves the
  controller in \<open>idle\<close>, not in \<open>error\<close>, with the retry message shown.
\<close>

theorem onerror_ends_idle:
  "connectionState connected_state = cs_connected
   \<and> connectionState (onerror connected_state) = cs_idle
   \<and> error (onerror connected_state) = Some connection_error_message"
  by (simp add: onerror_def connected_state_fields stopConversation_fields)

text \<open>
  C6. The close callback sets the state to \<open>closed\<close> and then calls
  \<open>stopConversation\<close>: a remote close in the connected state leaves the controller in
  \<open>idle\<close>, not in \<open>closed\<close>; no error message is set.
\<close>

theorem onclose_ends_idle:
  "connectionState connected_state = cs_connected
   \<and> connectionState (onclose connected_state) = cs_idle
   \<and> error (onclose connected_state) = None"
  by (simp add: onclose_def connected_state_fields stopConversation_fields)

lemma start_try_thrown: "snd (start_try env scope s) = first_thrown env"
  by (simp add: start_try_def first_thrown_def Let_def split: sum.splits option.splits)

lemma start_try_state_kept:
  "connectionState (fst (start_try env scope s)) = connectionState s"
  "voiceStatus (fst (start_try env scope s)) = voiceStatus s"
  "error (fst (start_try env scope s)) = error s"
  "currentInputTranscription (fst (start_try env scope s)) = currentInputTranscription s"
  "currentOutputTranscription (fst (start_try env scope s)) = currentOutputTranscription s"
  by (simp_all add: start_try_def Let_def split: sum.splits option.splits)

lemma start_try_failed_no_session:
  "first_thrown env = Some err \<Longrightarrow>
     sessionPromiseRef (fst (start_try env scope s)) = sessionPromiseRef s
     \<and> sessions (fst (start_try env scope s)) = sessions s"
  by (auto simp: start_try_def first_thrown_def Let_def split: sum.splits option.splits)

lemma start_try_denied: "getUserMedia env = Inl err \<Longrightarrow> start_try env scope s = (s, Some err)"
  by (simp add: start_try_def)

lemma start_try_granted:
  "getUserMedia env = Inr n \<Longrightarrow> new_GoogleGenAI env = None \<Longrightarrow> new_AudioContext env = None
   \<Longrightarrow> live_connect env = None \<Longrightarrow>
   start_try env scope s =
     (s\<lparr>fresh := Suc (Suc (Suc (fresh s))),
        stream_tracks_stopped := (stream_tracks_stopped s)(fresh s := replicate n False),
        streamRef := Some (fresh s),
        context_state := (context_state s)(Suc (fresh s) := ac_running),
        outputAudioContextRef := Some (Suc (fresh s)),
        sessions := (sessions s)
          (Suc (Suc (fresh s)) := \<lparr>session_closed = False, callbacks_scope = scope\<rparr>),
        sessionPromiseRef := Some (Suc (Suc (fresh s)))\<rparr>, None)"
  by (simp add: start_try_def Let_def)

lemma startConversation_noop: "\<not> may_start s \<Longrightarrow> startConversation env s = s"
  by (simp add: startConversation_def may_start_def)

lemma startConversation_proceeds:
  "may_start s \<Longrightarrow>
   startConversation env s =
     (let scope = \<lparr>scope_currentInputTranscription = currentInputTranscription s,
                   scope_currentOutputTranscription = currentOutputTranscription s,
                   scope_history = history s\<rparr>;
          s0 = s\<lparr>connectionState := cs_connecting, voiceStatus := vs_Connecting, error := None,
                 currentInputTranscription := [], currentOutputTranscription := []\<rparr>;
          s1 = fst (start_try env scope s0)
      in case first_thrown env of
           None \<Rightarrow> s1
         | Some err \<Rightarrow> s1\<lparr>error := Some (errorMessage err), connectionState := cs_error,
                         voiceStatus := vs_Idle\<rparr>)"
proof -
  assume ok: "may_start s"
  define scope where "scope = \<lparr>scope_currentInputTranscription = currentInputTranscription s,
                   scope_currentOutputTranscription = currentOutputTranscription s,
                   scope_history = history s\<rparr>"
  define s0 where "s0 = s\<lparr>connectionState := cs_connecting, voiceStatus := vs_Connecting,
                 error := None, currentInputTranscription := [],
                 currentOutputTranscription := []\<rparr>"
  obtain s1 t where r: "start_try env scope s0 = (s1, t)"
    by (cases "start_try env scope s0")
  have t: "t = first_thrown env"
    using start_try_thrown [of env scope s0] r by simp
  have "startConversation env s =
      (case t of None \<Rightarrow> s1
       | Some err \<Rightarrow> s1\<lparr>error := Some (errorMessage err), connectionState := cs_error,
                         voiceStatus := vs_Idle\<rparr>)"
    using ok r
    by (auto simp: startConversation_def may_start_def Let_def scope_def s0_def
        split: option.splits)
  then show ?thesis
    using r t by (simp add: Let_def scope_def s0_def split: option.splits)
qed

lemma startConversation_state:
  "may_start s \<Longrightarrow>
   connectionState (startConversation env s) =
     (case first_thrown env of None \<Rightarrow> cs_connecting | Some err \<Rightarrow> cs_error)"
  by (simp add: startConversation_proceeds Let_def start_try_state_kept split: option.splits)

section \<open>Starting\<close>

text \<open>
  C8. \<open>startConversation\<close> called while the state is \<open>connected\<close> or \<open>connecting\<close> returns
  at once: the whole state is as before, so no state is set and no stream, context or
  session is created, and a second session cannot appear beside the active one.
  Whenever it changes anything the state was \<open>idle\<close>, \<open>closed\<close> or \<open>error\<close>, and from
  each of these it does proceed: it ends in \<open>connecting\<close> when no step of the start-up
  throws, in \<open>error\<close> otherwise.
\<close>

theorem start_noop_when_active:
  "(connectionState s = cs_connected \<or> connectionState s = cs_connecting
      \<longrightarrow> startConversation env s = s)
   \<and> (startConversation env s \<noteq> s
      \<longrightarrow> connectionState s = cs_idle \<or> connectionState s = cs_closed
          \<or> connectionState s = cs_error)
   \<and> (connectionState s = cs_idle \<or> connectionState s = cs_closed \<or> connectionState s = cs_error
      \<longrightarrow> connectionState (startConversation env s) =
            (case first_thrown env of None \<Rightarrow> cs_connecting | Some err \<Rightarrow> cs_error))"
proof (intro conjI impI)
  assume "connectionState s = cs_connected \<or> connectionState s = cs_connecting"
  then have "\<not> may_start s" by (auto simp: may_start_def)
  then show "startConversation env s = s" by (rule startConversation_noop)
next
  assume "startConversation env s \<noteq> s"
  then have "may_start s" using startConversation_noop by blast
  then show "connectionState s = cs_idle \<or> connectionState s = cs_closed
          \<or> connectionState s = cs_error" by (auto simp: may_start_def)
next
  assume "connectionState s = cs_idle \<or> connectionState s = cs_closed \<or> connectionState s = cs_error"
  then have "may_start s" by (auto simp: may_start_def)
  then show "connectionState (startConversation env s) =
            (case first_thrown env of None \<Rightarrow> cs_connecting | Some err \<Rightarrow> cs_error)"
    by (rule startConversation_state)
qed

lemma connecting_state_fields:
  "connectionState connecting_state = cs_connecting"
  "sessionPromiseRef connecting_state = Some 2"
  by (simp_all add: connecting_state_eq)

lemma mounted_fields:
  "connectionState (mounted h) = cs_idle"
  "sessionPromiseRef (mounted h) = None"
  "streamRef (mounted h) = None"
  "fresh (mounted h) = 0"
  "error (mounted h) = None"
  by (simp_all add: mounted_def)

lemma first_thrown_all_granted: "first_thrown all_granted = None"
  by (simp add: first_thrown_def all_granted_def)

text \<open>The theorem at the connected, the connecting and the mounted state.\<close>

theorem start_noop_when_active_witness:
  "connectionState connected_state = cs_connected
   \<and> startConversation all_granted connected_state = connected_state
   \<and> connectionState connecting_state = cs_connecting
   \<and> startConversation all_granted connecting_state = connecting_state
   \<and> connectionState (mounted []) = cs_idle
   \<and> startConversation all_granted (mounted []) \<noteq> mounted []
   \<and> connectionState (startConversation all_granted (mounted [])) = cs_connecting"
proof -
  have a: "connectionState (startConversation all_granted (mounted [])) = cs_connecting"
    using start_noop_when_active [of "mounted []" all_granted]
    by (simp add: mounted_fields first_thrown_all_granted)
  then have b: "startConversation all_granted (mounted []) \<noteq> mounted []"
    by (auto simp: mounted_fields)
  show ?thesis
    using start_noop_when_active [of connected_state all_granted]
      start_noop_when_active [of connecting_state all_granted] a b
    by (simp add: connected_state_fields connecting_state_fields mounted_fields)
qed

lemma unexpected_not_microphone: "unexpected_error_message \<noteq> microphone_denied_message"
  by (simp add: unexpected_error_message_def microphone_denied_message_def)

lemma errorMessage_microphone_iff:
  "errorMessage err = microphone_denied_message \<longleftrightarrow>
     (\<exists>name message. err = Error_obj name message \<and>
        (name = ''NotAllowedError'' \<or> name = ''PermissionDeniedError''
         \<or> js_includes message ''Permission denied''
         \<or> message = microphone_denied_message))"
  by (cases err) (auto simp: errorMessage_def unexpected_not_microphone)

lemma startConversation_failed:
  assumes "may_start s" and "first_thrown env = Some err"
  shows "connectionState (startConversation env s) = cs_error"
    and "voiceStatus (startConversation env s) = vs_Idle"
    and "error (startConversation env s) = Some (errorMessage err)"
    and "sessionPromiseRef (startConversation env s) = sessionPromiseRef s"
    and "sessions (startConversation env s) = sessions s"
  using assms
  by (simp_all add: startConversation_proceeds Let_def start_try_failed_no_session)

lemma startConversation_denied:
  assumes "may_start s" and "getUserMedia env = Inl err"
  shows "streamRef (startConversation env s) = streamRef s"
    and "fresh (startConversation env s) = fresh s"
proof -
  have "first_thrown env = Some err"
    using assms(2) by (simp add: first_thrown_def)
  then show "streamRef (startConversation env s) = streamRef s"
    and "fresh (startConversation env s) = fresh s"
    using assms by (simp_all add: startConversation_proceeds Let_def start_try_denied)
qed

text \<open>
  C9, as the code has it. When a step of the start-up throws, \<open>startConversation\<close> ends
  in \<open>error\<close> with the message of lines 186-193, creates no session and does not try
  again; when it is \<open>getUserMedia\<close> that throws, nothing was acquired at all. The
  microphone message is shown exactly for an \<open>Error\<close> named \<open>NotAllowedError\<close> or
  \<open>PermissionDeniedError\<close>, or whose message contains \<open>Permission denied\<close> (or is that
  very sentence), whichever step threw it; any other \<open>Error\<close> shows its own message and
  a thrown value that is not an \<open>Error\<close> the generic one.
\<close>

theorem start_failure_message:
  assumes "connectionState s = cs_idle \<or> connectionState s = cs_error
           \<or> connectionState s = cs_closed"
      and "first_thrown env = Some err"
  shows "connectionState (startConversation env s) = cs_error
       \<and> voiceStatus (startConversation env s) = vs_Idle
       \<and> error (startConversation env s) = Some (errorMessage err)
       \<and> sessionPromiseRef (startConversation env s) = sessionPromiseRef s
       \<and> sessions (startConversation env s) = sessions s
       \<and> (getUserMedia env = Inl err \<longrightarrow>
            streamRef (startConversation env s) = streamRef s
            \<and> fresh (startConversation env s) = fresh s)
       \<and> (errorMessage err = microphone_denied_message \<longleftrightarrow>
            (\<exists>name message. err = Error_obj name message \<and>
               (name = ''NotAllowedError'' \<or> name = ''PermissionDeniedError''
                \<or> js_includes message ''Permission denied''
                \<or> message = microphone_denied_message)))
       \<and> (err = NonError \<longrightarrow> errorMessage err = unexpected_error_message)
       \<and> (\<forall>name message. err = Error_obj name message \<and> name \<noteq> ''NotAllowedError''
              \<and> name \<noteq> ''PermissionDeniedError''
              \<and> \<not> js_includes message ''Permission denied''
            \<longrightarrow> errorMessage err = message)"
proof -
  have ok: "may_start s"
    using assms(1) by (simp add: may_start_def)
  have a: "connectionState (startConversation env s) = cs_error
       \<and> voiceStatus (startConversation env s) = vs_Idle
       \<and> error (startConversation env s) = Some (errorMessage err)
       \<and> sessionPromiseRef (startConversation env s) = sessionPromiseRef s
       \<and> sessions (startConversation env s) = sessions s"
    using startConversation_failed [OF ok assms(2)] by simp
  have b: "getUserMedia env = Inl err \<longrightarrow>
            streamRef (startConversation env s) = streamRef s
            \<and> fresh (startConversation env s) = fresh s"
    using startConversation_denied [OF ok] by simp
  have c: "err = NonError \<longrightarrow> errorMessage err = unexpected_error_message"
    by (simp add: errorMessage_def)
  have d: "\<forall>name message. err = Error_obj name message \<and> name \<noteq> ''NotAllowedError''
              \<and> name \<noteq> ''PermissionDeniedError''
              \<and> \<not> js_includes message ''Permission denied''
            \<longrightarrow> errorMessage err = message"
    by (simp add: errorMessage_def)
  show ?thesis
    using a b c d errorMessage_microphone_iff [of err] by blast
qed

text \<open>The theorem at a start-up of the mounted component whose \<open>getUserMedia\<close> is refused.\<close>

theorem start_failure_message_witness:
  "connectionState (mounted []) = cs_idle
   \<and> first_thrown microphone_refused = Some (Error_obj ''NotAllowedError'' ''Permission denied'')
   \<and> connectionState (startConversation microphone_refused (mounted [])) = cs_error
   \<and> voiceStatus (startConversation microphone_refused (mounted [])) = vs_Idle
   \<and> error (startConversation microphone_refused (mounted [])) = Some microphone_denied_message
   \<and> sessionPromiseRef (startConversation microphone_refused (mounted [])) = None
   \<and> streamRef (startConversation microphone_refused (mounted [])) = None
   \<and> fresh (startConversation microphone_refused (mounted [])) = 0"
proof -
  have t: "first_thrown microphone_refused = Some (Error_obj ''NotAllowedError'' ''Permission denied'')"
    by (simp add: first_thrown_def microphone_refused_def)
  have g: "getUserMedia microphone_refused = Inl (Error_obj ''NotAllowedError'' ''Permission denied'')"
    by (simp add: microphone_refused_def)
  have i: "connectionState (mounted []) = cs_idle \<or> connectionState (mounted []) = cs_error
           \<or> connectionState (mounted []) = cs_closed"
    by (simp add: mounted_fields)
  have m: "errorMessage (Error_obj ''NotAllowedError'' ''Permission denied'') = microphone_denied_message"
    by (simp add: errorMessage_def)
  show ?thesis
    using start_failure_message [OF i t] t g m
    by (simp add: mounted_fields)
qed

text \<open>
  C9 as stated asks for a message distinct from that of any other start-up failure.
  With the microphone granted (the stream ref is set) and the SDK constructor throwing
  an error that mentions a permission, the message shown is the one shown when the
  microphone is refused.
\<close>

theorem microphone_message_for_other_failure:
  "getUserMedia sdk_refused = Inr 1
   \<and> streamRef (startConversation sdk_refused (mounted [])) = Some 0
   \<and> error (startConversation sdk_refused (mounted [])) = Some microphone_denied_message
   \<and> error (startConversation microphone_refused (mounted [])) = Some microphone_denied_message"
  by (simp add: startConversation_def start_try_def sdk_refused_def microphone_refused_def
      mounted_def Let_def errorMessage_def)

lemma fold_stop_source:
  "fold stop_source hs B g = (if g \<in> set hs then (B g)\<lparr>source_stopped := True\<rparr> else B g)"
  by (induction hs arbitrary: B) (auto simp: stop_source_def)

lemma note_input_frame:
  "nextStartTimeRef (note_input m s) = nextStartTimeRef s"
  "sourcesRef (note_input m s) = sourcesRef s"
  "buffer_sources (note_input m s) = buffer_sources s"
  "fresh (note_input m s) = fresh s"
  "outputAudioContextRef (note_input m s) = outputAudioContextRef s"
  "history (note_input m s) = history s"
  "currentOutputTranscription (note_input m s) = currentOutputTranscription s"
  "currentInputTranscription (note_input m s) = currentInputTranscription s @ tempInput_of m"
  by (simp_all add: note_input_def tempInput_of_def split: option.splits)

lemma note_output_frame:
  "nextStartTimeRef (note_output m s) = nextStartTimeRef s"
  "sourcesRef (note_output m s) = sourcesRef s"
  "buffer_sources (note_output m s) = buffer_sources s"
  "fresh (note_output m s) = fresh s"
  "outputAudioContextRef (note_output m s) = outputAudioContextRef s"
  "history (note_output m s) = history s"
  "currentInputTranscription (note_output m s) = currentInputTranscription s"
  "currentOutputTranscription (note_output m s) = currentOutputTranscription s @ tempOutput_of m"
  by (simp_all add: note_output_def tempOutput_of_def split: option.splits)

lemma complete_turn_frame:
  "nextStartTimeRef (complete_turn sc m s) = nextStartTimeRef s"
  "sourcesRef (complete_turn sc m s) = sourcesRef s"
  "buffer_sources (complete_turn sc m s) = buffer_sources s"
  "fresh (complete_turn sc m s) = fresh s"
  "outputAudioContextRef (complete_turn sc m s) = outputAudioContextRef s"
  by (simp_all add: complete_turn_def onHistoryUpdate_def Let_def)

lemma handle_interrupted_frame:
  "fresh (handle_interrupted m s) = fresh s"
  "outputAudioContextRef (handle_interrupted m s) = outputAudioContextRef s"
  "history (handle_interrupted m s) = history s"
  "currentInputTranscription (handle_interrupted m s) = currentInputTranscription s"
  "currentOutputTranscription (handle_interrupted m s) = currentOutputTranscription s"
  by (simp_all add: handle_interrupted_def)

lemma handle_interrupted_fields:
  "nextStartTimeRef (handle_interrupted m s) =
     (if interrupted_of m then 0 else nextStartTimeRef s)"
  "sourcesRef (handle_interrupted m s) = (if interrupted_of m then [] else sourcesRef s)"
  "buffer_sources (handle_interrupted m s) =
     (if interrupted_of m then fold stop_source (sourcesRef s) (buffer_sources s)
      else buffer_sources s)"
  by (simp_all add: handle_interrupted_def)

lemma play_audio_frame:
  "outputAudioContextRef (play_audio dur now m s) = outputAudioContextRef s"
  "history (play_audio dur now m s) = history s"
  "currentInputTranscription (play_audio dur now m s) = currentInputTranscription s"
  "currentOutputTranscription (play_audio dur now m s) = currentOutputTranscription s"
  by (simp_all add: play_audio_def Let_def split: option.splits)

lemma play_audio_silent:
  "\<not> playable m \<or> outputAudioContextRef s = None \<Longrightarrow> play_audio dur now m s = s"
  by (auto simp: play_audio_def playable_def split: option.splits)

lemma play_audio_unit:
  assumes "playable m" and "outputAudioContextRef s \<noteq> None"
  shows "nextStartTimeRef (play_audio dur now m s) =
           max (nextStartTimeRef s) now + dur (payload_of m)"
    and "fresh (play_audio dur now m s) = Suc (fresh s)"
    and "sourcesRef (play_audio dur now m s) = set_add (fresh s) (sourcesRef s)"
    and "buffer_sources (play_audio dur now m s) =
           (buffer_sources s)
             (fresh s := \<lparr>start_at = max (nextStartTimeRef s) now,
                          buffer_duration = dur (payload_of m),
                          source_stopped = False\<rparr>)"
  using assms
  by (auto simp: play_audio_def playable_def payload_of_def Let_def split: option.splits)

lemma onmessage_fields:
  "fresh (onmessage sc dur now m s) = fresh (play_audio dur now m s)"
  "outputAudioContextRef (onmessage sc dur now m s) = outputAudioContextRef s"
  "nextStartTimeRef (onmessage sc dur now m s) =
     (if interrupted_of m then 0 else nextStartTimeRef (play_audio dur now m s))"
  "sourcesRef (onmessage sc dur now m s) =
     (if interrupted_of m then [] else sourcesRef (play_audio dur now m s))"
  "buffer_sources (onmessage sc dur now m s) =
     (if interrupted_of m
      then fold stop_source (sourcesRef (play_audio dur now m s))
             (buffer_sources (play_audio dur now m s))
      else buffer_sources (play_audio dur now m s))"
  by (simp_all add: onmessage_def handle_interrupted_frame handle_interrupted_fields
      complete_turn_frame note_output_frame note_input_frame play_audio_frame)

lemmas message_defs = msg_def audio_content_def empty_content_def base64Audio_of_def truthy_def
  inputTranscription_of_def outputTranscription_of_def turnComplete_of_def interrupted_of_def
  playable_def payload_of_def tempInput_of_def tempOutput_of_def

lemma unit_message_facts:
  "playable unit_message" "\<not> interrupted_of unit_message" "payload_of unit_message = ''AAAA''"
  by (simp_all add: unit_message_def message_defs)

lemma interruption_facts:
  "\<not> playable interruption" "interrupted_of interruption"
  by (simp_all add: interruption_def message_defs)

lemma interrupting_unit_facts:
  "playable interrupting_unit" "interrupted_of interrupting_unit"
  "payload_of interrupting_unit = ''AAAA''"
  by (simp_all add: interrupting_unit_def message_defs)

lemma heard_hello_facts:
  "\<not> playable heard_hello" "\<not> interrupted_of heard_hello" "\<not> turnComplete_of heard_hello"
  "tempInput_of heard_hello = ''hello''" "tempOutput_of heard_hello = []"
  by (simp_all add: heard_hello_def message_defs)

lemma turn_done_facts:
  "\<not> playable turn_done" "\<not> interrupted_of turn_done" "turnComplete_of turn_done"
  "tempInput_of turn_done = []" "tempOutput_of turn_done = []"
  by (simp_all add: turn_done_def message_defs)

lemma set_add_mem: "set (set_add h hs) = insert h (set hs)"
  by (auto simp: set_add_def)

lemma feed_quiet:
  "(\<forall>(q, t) \<in> set quiet. \<not> playable q) \<Longrightarrow> nextStartTimeRef s = 0 \<Longrightarrow>
     nextStartTimeRef (feed sc dur quiet s) = 0
     \<and> outputAudioContextRef (feed sc dur quiet s) = outputAudioContextRef s"
proof (induction quiet arbitrary: s)
  case Nil
  then show ?case by simp
next
  case (Cons x quiet)
  obtain q t where x: "x = (q, t)" by (cases x)
  have np: "\<not> playable q" using Cons.prems(1) x by simp
  have c: "nextStartTimeRef (onmessage sc dur t q s) = 0"
    using np Cons.prems(2) by (simp add: onmessage_fields play_audio_silent)
  have rest: "\<forall>(q, t) \<in> set quiet. \<not> playable q" using Cons.prems(1) by simp
  show ?case
    using Cons.IH [OF rest c] x by (simp add: onmessage_fields)
qed

lemma onmessage_unit_start:
  assumes "playable u" and "outputAudioContextRef s \<noteq> None"
  shows "start_at (buffer_sources (onmessage sc dur now u s) (fresh s)) =
           max (nextStartTimeRef s) now"
  using assms
  by (simp add: onmessage_fields play_audio_unit fold_stop_source)

lemma onmessage_stops_scheduled:
  assumes "interrupted_of m" and "h \<in> set (sourcesRef s)"
  shows "source_stopped (buffer_sources (onmessage sc dur now m s) h)"
proof (cases "playable m \<and> outputAudioContextRef s \<noteq> None")
  case True
  then show ?thesis
    using assms by (simp add: onmessage_fields play_audio_unit fold_stop_source set_add_mem)
next
  case False
  then have "play_audio dur now m s = s"
    using play_audio_silent by blast
  then show ?thesis
    using assms by (simp add: onmessage_fields fold_stop_source)
qed

section \<open>Playback\<close>

text \<open>
  C2. A message with the interruption marker stops every source that was in the
  scheduled set, leaves the set empty and the start cursor at zero. The next unit to
  arrive after it, whatever messages without audio come in between, is then started
  at the clock reading of its own arrival (a clock reading is never negative), not at
  the cursor of before the interruption.
\<close>

theorem interruption_clears_and_resets:
  assumes "interrupted_of m"
  shows "(\<forall>h \<in> set (sourcesRef s).
            source_stopped (buffer_sources (onmessage sc dur now m s) h))
       \<and> sourcesRef (onmessage sc dur now m s) = []
       \<and> nextStartTimeRef (onmessage sc dur now m s) = 0
       \<and> ((\<forall>(q, t) \<in> set quiet. \<not> playable q) \<and> playable u
            \<and> outputAudioContextRef s \<noteq> None \<and> 0 \<le> now'
          \<longrightarrow> start_at
                (buffer_sources
                   (onmessage sc dur now' u (feed sc dur quiet (onmessage sc dur now m s)))
                   (fresh (feed sc dur quiet (onmessage sc dur now m s)))) = now')"
proof -
  let ?s' = "onmessage sc dur now m s"
  have a: "\<forall>h \<in> set (sourcesRef s). source_stopped (buffer_sources ?s' h)"
    using onmessage_stops_scheduled [OF assms] by blast
  have b: "sourcesRef ?s' = []" and c: "nextStartTimeRef ?s' = 0"
    using assms by (simp_all add: onmessage_fields)
  have d: "start_at (buffer_sources (onmessage sc dur now' u (feed sc dur quiet ?s'))
                (fresh (feed sc dur quiet ?s'))) = now'"
    if q: "\<forall>(q, t) \<in> set quiet. \<not> playable q" and u: "playable u"
      and o: "outputAudioContextRef s \<noteq> None" and n: "0 \<le> now'"
  proof -
    have f: "nextStartTimeRef (feed sc dur quiet ?s') = 0
             \<and> outputAudioContextRef (feed sc dur quiet ?s') = outputAudioContextRef ?s'"
      using feed_quiet [OF q c] .
    then have o': "outputAudioContextRef (feed sc dur quiet ?s') \<noteq> None"
      using o by (simp add: onmessage_fields)
    show ?thesis
      using onmessage_unit_start [OF u o'] f n by simp
  qed
  show ?thesis
    using a b c d by blast
qed

lemma onmessage_keeps_sessions: "sessions (onmessage sc dur now m s) = sessions s"
  by (simp add: onmessage_def handle_interrupted_def complete_turn_def onHistoryUpdate_def
      note_output_def note_input_def play_audio_def Let_def split: option.splits)

lemma playing_state_fields:
  "sourcesRef playing_state = [6]"
  "nextStartTimeRef playing_state = 1 / 2"
  "fresh playing_state = 7"
  "outputAudioContextRef playing_state = Some 1"
  "start_at (buffer_sources playing_state 6) = 0"
  "source_stopped (buffer_sources playing_state 6) = False"
  by (simp_all add: playing_state_def deliver_def onmessage_fields play_audio_unit
      unit_message_facts connected_state_fields set_add_def half_second_def)

text \<open>The theorem at the state with one scheduled unit: an interruption, then a
  transcription fragment, then a unit at clock 2.\<close>

theorem interruption_clears_and_resets_witness:
  "interrupted_of interruption
   \<and> sourcesRef playing_state = [6]
   \<and> nextStartTimeRef playing_state = 1 / 2
   \<and> source_stopped (buffer_sources (onmessage mount_scope half_second 1 interruption playing_state) 6)
   \<and> sourcesRef (onmessage mount_scope half_second 1 interruption playing_state) = []
   \<and> nextStartTimeRef (onmessage mount_scope half_second 1 interruption playing_state) = 0
   \<and> start_at
       (buffer_sources
          (onmessage mount_scope half_second 2 unit_message
             (feed mount_scope half_second [(heard_hello, 3 / 2)]
                (onmessage mount_scope half_second 1 interruption playing_state)))
          (fresh (feed mount_scope half_second [(heard_hello, 3 / 2)]
                (onmessage mount_scope half_second 1 interruption playing_state)))) = 2"
  using interruption_clears_and_resets
    [of interruption playing_state mount_scope half_second 1 "[(heard_hello, 3 / 2)]" unit_message 2]
  by (simp add: interruption_facts playing_state_fields heard_hello_facts unit_message_facts)

lemma connected_state_scope: "callbacks_scope (sessions connected_state 2) = mount_scope"
  by (simp add: connected_state_fields mount_scope_def)

text \<open>
  C10, as the code has it. In the handler of one message that carries a playable
  payload and the interruption marker, the unit is scheduled first: it is added to the
  scheduled set and started at the larger of the cursor of before and the clock. The
  interruption is handled after that: the same unit is stopped, the set is empty, the
  cursor is zero, and every source scheduled before is stopped as well.
\<close>

theorem unit_with_interruption:
  assumes "playable m" and "interrupted_of m" and "outputAudioContextRef s \<noteq> None"
  shows "fresh s \<in> set (sourcesRef (play_audio dur now m s))
       \<and> buffer_sources (play_audio dur now m s) (fresh s) =
            \<lparr>start_at = max (nextStartTimeRef s) now,
             buffer_duration = dur (payload_of m),
             source_stopped = False\<rparr>
       \<and> buffer_sources (onmessage sc dur now m s) (fresh s) =
            \<lparr>start_at = max (nextStartTimeRef s) now,
             buffer_duration = dur (payload_of m),
             source_stopped = True\<rparr>
       \<and> sourcesRef (onmessage sc dur now m s) = []
       \<and> nextStartTimeRef (onmessage sc dur now m s) = 0
       \<and> (\<forall>h \<in> set (sourcesRef s).
             source_stopped (buffer_sources (onmessage sc dur now m s) h))"
proof -
  have a: "fresh s \<in> set (sourcesRef (play_audio dur now m s))"
    using assms by (simp add: play_audio_unit set_add_mem)
  have b: "buffer_sources (play_audio dur now m s) (fresh s) =
            \<lparr>start_at = max (nextStartTimeRef s) now,
             buffer_duration = dur (payload_of m),
             source_stopped = False\<rparr>"
    using assms by (simp add: play_audio_unit)
  have c: "buffer_sources (onmessage sc dur now m s) (fresh s) =
            \<lparr>start_at = max (nextStartTimeRef s) now,
             buffer_duration = dur (payload_of m),
             source_stopped = True\<rparr>"
    using assms by (simp add: onmessage_fields play_audio_unit fold_stop_source set_add_mem)
  have d: "sourcesRef (onmessage sc dur now m s) = []"
    and e: "nextStartTimeRef (onmessage sc dur now m s) = 0"
    using assms by (simp_all add: onmessage_fields)
  have f: "\<forall>h \<in> set (sourcesRef s).
             source_stopped (buffer_sources (onmessage sc dur now m s) h)"
    using onmessage_stops_scheduled [OF assms(2)] by blast
  show ?thesis
    using a b c d e f by blast
qed

text \<open>The theorem at the state with one scheduled unit, whose cursor is ahead of the clock.\<close>

theorem unit_with_interruption_witness:
  "playable interrupting_unit \<and> interrupted_of interrupting_unit
   \<and> outputAudioContextRef playing_state = Some 1
   \<and> sourcesRef playing_state = [6] \<and> fresh playing_state = 7
   \<and> nextStartTimeRef playing_state = 1 / 2
   \<and> buffer_sources (onmessage mount_scope half_second (1 / 4) interrupting_unit playing_state) 7 =
        \<lparr>start_at = 1 / 2, buffer_duration = 1 / 2, source_stopped = True\<rparr>
   \<and> sourcesRef (onmessage mount_scope half_second (1 / 4) interrupting_unit playing_state) = []
   \<and> nextStartTimeRef (onmessage mount_scope half_second (1 / 4) interrupting_unit playing_state) = 0
   \<and> source_stopped
        (buffer_sources (onmessage mount_scope half_second (1 / 4) interrupting_unit playing_state) 6)"
  using unit_with_interruption
    [of interrupting_unit playing_state half_second "1 / 4" mount_scope]
  by (simp add: interrupting_unit_facts playing_state_fields half_second_def)

text \<open>
  C10 as stated says such a unit is never scheduled at the clock reading. In the
  connected state the cursor is 0; a unit that arrives with the interruption marker at
  clock 1 is started at 1.
\<close>

theorem unit_with_interruption_at_now:
  "playable interrupting_unit \<and> interrupted_of interrupting_unit
   \<and> nextStartTimeRef connected_state = 0
   \<and> start_at
        (buffer_sources (deliver 2 half_second 1 interrupting_unit connected_state)
           (fresh connected_state)) = 1"
proof -
  have "start_at
        (buffer_sources (onmessage mount_scope half_second 1 interrupting_unit connected_state)
           (fresh connected_state)) = max (nextStartTimeRef connected_state) 1"
    by (rule onmessage_unit_start) (simp_all add: interrupting_unit_facts connected_state_fields)
  then show ?thesis
    by (simp add: deliver_def connected_state_scope interrupting_unit_facts
        connected_state_fields(12))
qed

section \<open>Turns\<close>

text \<open>A trimmed string is truthy exactly when the string has a character that is not
  white space. At a turn-complete marker the handler builds the turn from the constants
  of its scope and the fragments of this message, and resets both accumulators.\<close>

lemma truthy_trim: "truthy (trim x) \<longleftrightarrow> (\<exists>c \<in> set x. \<not> js_whitespace c)"
proof -
  have a: "dropWhile P xs \<noteq> [] \<longleftrightarrow> (\<exists>c \<in> set xs. \<not> P c)" for P and xs :: string
    by (simp add: dropWhile_eq_Nil_conv)
  have b: "(\<exists>c \<in> set (dropWhile P xs). \<not> P c) \<longleftrightarrow> (\<exists>c \<in> set xs. \<not> P c)" for P and xs :: string
  proof
    assume "\<exists>c \<in> set (dropWhile P xs). \<not> P c"
    then show "\<exists>c \<in> set xs. \<not> P c" using set_dropWhileD by fastforce
  next
    assume "\<exists>c \<in> set xs. \<not> P c"
    then have ne: "dropWhile P xs \<noteq> []" using a by simp
    then have "\<not> P (hd (dropWhile P xs))" by (rule hd_dropWhile)
    moreover have "hd (dropWhile P xs) \<in> set (dropWhile P xs)" using ne by simp
    ultimately show "\<exists>c \<in> set (dropWhile P xs). \<not> P c" by blast
  qed
  show ?thesis
    unfolding truthy_def trim_def
    using a [of js_whitespace "rev (dropWhile js_whitespace x)"] b [of js_whitespace x]
    by simp
qed

lemma complete_turn_result:
  assumes "turnComplete_of m"
  shows "history (complete_turn sc m s) =
           (if truthy (trim (scope_currentInputTranscription sc @ tempInput_of m))
               \<or> truthy (trim (scope_currentOutputTranscription sc @ tempOutput_of m))
            then scope_history sc @
                   [\<lparr>user = scope_currentInputTranscription sc @ tempInput_of m,
                     model = scope_currentOutputTranscription sc @ tempOutput_of m\<rparr>]
            else history s)"
    and "currentInputTranscription (complete_turn sc m s) = []"
    and "currentOutputTranscription (complete_turn sc m s) = []"
  using assms by (simp_all add: complete_turn_def onHistoryUpdate_def Let_def)

text \<open>
  C5. In a fresh session a message brings the input fragment \<open>hello\<close>, which the setter
  appends to the accumulated input text; the next message brings the turn-complete
  marker. The handler builds the turn from the constants of its scope, which are
  still empty, so nothing is appended to the history, although the accumulated input
  text was \<open>hello\<close>; both accumulators are reset.
\<close>

theorem turn_complete_drops_accumulated_text:
  "currentInputTranscription (deliver 2 half_second 0 heard_hello connected_state) = ''hello''
   \<and> history (deliver 2 half_second 1 turn_done
                 (deliver 2 half_second 0 heard_hello connected_state)) = []
   \<and> currentInputTranscription
        (deliver 2 half_second 1 turn_done
           (deliver 2 half_second 0 heard_hello connected_state)) = []
   \<and> currentOutputTranscription
        (deliver 2 half_second 1 turn_done
           (deliver 2 half_second 0 heard_hello connected_state)) = []"
proof -
  let ?s1 = "deliver 2 half_second 0 heard_hello connected_state"
  have s1: "?s1 = onmessage mount_scope half_second 0 heard_hello connected_state"
    by (simp add: deliver_def connected_state_scope)
  have quiet: "play_audio half_second 0 heard_hello connected_state = connected_state"
    by (simp add: play_audio_silent heard_hello_facts)
  have ct: "complete_turn mount_scope heard_hello x = x" for x
    by (simp add: complete_turn_def heard_hello_facts)
  have hi: "handle_interrupted heard_hello x = x" for x
    by (simp add: handle_interrupted_def heard_hello_facts)
  have a: "currentInputTranscription ?s1 = ''hello''"
    by (simp add: s1 onmessage_def quiet ct hi note_output_frame note_input_frame
        heard_hello_facts connected_state_fields)
  have h1: "history ?s1 = []"
    by (simp add: s1 onmessage_def quiet ct hi note_output_frame note_input_frame
        connected_state_fields)
  have sc: "callbacks_scope (sessions ?s1 2) = mount_scope"
    by (simp add: s1 onmessage_keeps_sessions connected_state_scope)
  let ?s2 = "deliver 2 half_second 1 turn_done ?s1"
  have s2: "?s2 = onmessage mount_scope half_second 1 turn_done ?s1"
    by (subst deliver_def) (simp only: sc)
  have quiet2: "play_audio half_second 1 turn_done ?s1 = ?s1"
    by (simp add: play_audio_silent turn_done_facts)
  have hi2: "handle_interrupted turn_done x = x" for x
    by (simp add: handle_interrupted_def turn_done_facts)
  have ni: "note_input turn_done x = x" for x
    by (simp add: note_input_def turn_done_def message_defs)
  have no: "note_output turn_done x = x" for x
    by (simp add: note_output_def turn_done_def message_defs)
  have ct2: "complete_turn mount_scope turn_done x =
      x\<lparr>voiceStatus := vs_Listening, currentInputTranscription := [],
        currentOutputTranscription := []\<rparr>" for x
    by (simp add: complete_turn_def turn_done_facts mount_scope_def trim_def truthy_def Let_def)
  have b: "history ?s2 = []"
    by (simp add: s2 onmessage_def quiet2 hi2 ni no ct2 h1)
  have c: "currentInputTranscription ?s2 = []" and d: "currentOutputTranscription ?s2 = []"
    by (simp_all add: s2 onmessage_def quiet2 hi2 ni no ct2)
  show ?thesis
    using a b c d by simp
qed

lemma feed_append: "feed sc dur (xs @ ys) s = feed sc dur ys (feed sc dur xs s)"
  by (induction xs arbitrary: s) auto

lemma feed_take_Suc:
  "k < length us \<Longrightarrow>
     feed sc dur (take (Suc k) us) s =
       onmessage sc dur (snd (us ! k)) (fst (us ! k)) (feed sc dur (take k us) s)"
  by (cases "us ! k") (simp add: take_Suc_conv_app_nth feed_append)

lemma onmessage_unit:
  assumes "playable m" and "\<not> interrupted_of m" and "outputAudioContextRef s \<noteq> None"
  shows "fresh (onmessage sc dur now m s) = Suc (fresh s)"
    and "nextStartTimeRef (onmessage sc dur now m s) =
           max (nextStartTimeRef s) now + dur (payload_of m)"
    and "buffer_sources (onmessage sc dur now m s) =
           (buffer_sources s)
             (fresh s := \<lparr>start_at = max (nextStartTimeRef s) now,
                          buffer_duration = dur (payload_of m),
                          source_stopped = False\<rparr>)"
  using assms by (simp_all add: onmessage_fields play_audio_unit)

lemma feed_units:
  "outputAudioContextRef s \<noteq> None \<Longrightarrow> (\<forall>(m, t) \<in> set us. playable m \<and> \<not> interrupted_of m)
   \<Longrightarrow> fresh (feed sc dur us s) = fresh s + length us
       \<and> outputAudioContextRef (feed sc dur us s) = outputAudioContextRef s
       \<and> (\<forall>g < fresh s. buffer_sources (feed sc dur us s) g = buffer_sources s g)"
proof (induction us arbitrary: s)
  case Nil
  then show ?case by simp
next
  case (Cons x us)
  obtain m t where x: "x = (m, t)" by (cases x)
  have u: "playable m" "\<not> interrupted_of m" using Cons.prems(2) x by auto
  let ?s1 = "onmessage sc dur t m s"
  have o1: "outputAudioContextRef ?s1 \<noteq> None"
    using Cons.prems(1) by (simp add: onmessage_fields)
  have rest: "\<forall>(m, t) \<in> set us. playable m \<and> \<not> interrupted_of m"
    using Cons.prems(2) by simp
  have f1: "fresh ?s1 = Suc (fresh s)"
    using onmessage_unit(1) [OF u Cons.prems(1)] .
  have b1: "buffer_sources ?s1 g = buffer_sources s g" if "g < fresh s" for g
    using onmessage_unit(3) [OF u Cons.prems(1), of sc dur t] that by simp
  show ?case
    using Cons.IH [OF o1 rest] f1 b1 x by (simp add: onmessage_fields)
qed

lemma take_units:
  "(\<forall>(m, t) \<in> set us. playable m \<and> \<not> interrupted_of m)
   \<Longrightarrow> (\<forall>(m, t) \<in> set (take k us). playable m \<and> \<not> interrupted_of m)"
  by (meson in_set_takeD)

lemma drop_units:
  "(\<forall>(m, t) \<in> set us. playable m \<and> \<not> interrupted_of m)
   \<Longrightarrow> (\<forall>(m, t) \<in> set (drop k us). playable m \<and> \<not> interrupted_of m)"
  by (meson in_set_dropD)

lemma unit_scheduled:
  assumes o: "outputAudioContextRef s \<noteq> None"
      and us: "\<forall>(m, t) \<in> set us. playable m \<and> \<not> interrupted_of m"
      and k: "k < length us"
  shows "unit_at sc dur us s k =
           \<lparr>start_at = max (cursor_before sc dur us s k) (snd (us ! k)),
            buffer_duration = dur (payload_of (fst (us ! k))),
            source_stopped = False\<rparr>"
    and "cursor_before sc dur us s (Suc k) =
           max (cursor_before sc dur us s k) (snd (us ! k)) + dur (payload_of (fst (us ! k)))"
proof -
  let ?pre = "feed sc dur (take k us) s"
  let ?post = "feed sc dur (take (Suc k) us) s"
  have pre: "fresh ?pre = fresh s + k \<and> outputAudioContextRef ?pre = outputAudioContextRef s"
    using feed_units [where s = s and us = "take k us" and sc = sc and dur = dur,
        OF o take_units [OF us]] k by simp
  then have opre: "outputAudioContextRef ?pre \<noteq> None"
    using o by simp
  have "\<forall>x \<in> set us. playable (fst x) \<and> \<not> interrupted_of (fst x)"
    using us by auto
  then have "playable (fst (us ! k)) \<and> \<not> interrupted_of (fst (us ! k))"
    using nth_mem [OF k] by blast
  then have uk: "playable (fst (us ! k))" "\<not> interrupted_of (fst (us ! k))"
    by simp_all
  have post: "?post = onmessage sc dur (snd (us ! k)) (fst (us ! k)) ?pre"
    using feed_take_Suc [OF k] .
  have fpost: "fresh ?post = Suc (fresh s + k)"
    using onmessage_unit(1) [OF uk opre] pre post by simp
  have opost: "outputAudioContextRef ?post \<noteq> None"
    using opre post by (simp add: onmessage_fields)
  have bpost: "buffer_sources ?post (fresh s + k) =
           \<lparr>start_at = max (nextStartTimeRef ?pre) (snd (us ! k)),
            buffer_duration = dur (payload_of (fst (us ! k))),
            source_stopped = False\<rparr>"
    using onmessage_unit(3) [OF uk opre, of sc dur "snd (us ! k)"] pre post by simp
  have whole: "feed sc dur us s = feed sc dur (drop (Suc k) us) ?post"
    using feed_append [of sc dur "take (Suc k) us" "drop (Suc k) us" s] by simp
  have frame: "buffer_sources (feed sc dur (drop (Suc k) us) ?post) (fresh s + k) =
               buffer_sources ?post (fresh s + k)"
    using feed_units [where s = "?post" and us = "drop (Suc k) us" and sc = sc and dur = dur,
        OF opost drop_units [OF us]] fpost by simp
  show "unit_at sc dur us s k =
           \<lparr>start_at = max (cursor_before sc dur us s k) (snd (us ! k)),
            buffer_duration = dur (payload_of (fst (us ! k))),
            source_stopped = False\<rparr>"
    using whole frame bpost by (simp add: unit_at_def cursor_before_def)
  show "cursor_before sc dur us s (Suc k) =
           max (cursor_before sc dur us s k) (snd (us ! k)) + dur (payload_of (fst (us ! k)))"
    using onmessage_unit(2) [OF uk opre, of sc dur "snd (us ! k)"] post
    by (simp add: cursor_before_def)
qed

lemma durations_take_Suc:
  "k < length us \<Longrightarrow>
     sum_list (take (Suc k) (durations dur us)) =
       sum_list (take k (durations dur us)) + dur (payload_of (fst (us ! k)))"
  by (simp add: durations_def take_Suc_conv_app_nth split: prod.splits)

lemma cursor_is_sum:
  assumes o: "outputAudioContextRef s \<noteq> None"
      and us: "\<forall>(m, t) \<in> set us. playable m \<and> \<not> interrupted_of m"
  shows "k \<le> length us \<Longrightarrow>
     (\<forall>i < k. snd (us ! i) \<le> nextStartTimeRef s + sum_list (take i (durations dur us)))
     \<Longrightarrow> cursor_before sc dur us s k = nextStartTimeRef s + sum_list (take k (durations dur us))"
proof (induction k)
  case 0
  then show ?case by (simp add: cursor_before_def)
next
  case (Suc k)
  have k: "k < length us" using Suc.prems(1) by simp
  have prev: "cursor_before sc dur us s k =
      nextStartTimeRef s + sum_list (take k (durations dur us))"
    using Suc.IH Suc.prems by simp
  have ontime: "snd (us ! k) \<le> cursor_before sc dur us s k"
    using Suc.prems(2) prev by simp
  show ?case
    using unit_scheduled(2) [OF o us k, of sc dur] ontime prev durations_take_Suc [OF k, of dur]
    by simp
qed

section \<open>Units in sequence\<close>

text \<open>
  C1, as the code has it. For units that arrive one after the other with no
  interruption, unit \<open>k\<close> is started at the larger of the cursor and the clock reading
  of its arrival, so never before that clock reading, and the cursor is then advanced
  by exactly its duration. The cursor before unit \<open>k\<close> is therefore the end (start plus
  duration) of unit \<open>k - 1\<close>: the next unit starts at the end of the one before (no gap,
  no overlap) or, when it is late, at the clock. The cursor equals the cursor of the
  beginning plus the sum of the durations of the units before only as long as no unit
  before arrived with the clock ahead of the cursor.
\<close>

theorem units_back_to_back:
  assumes "outputAudioContextRef s \<noteq> None"
      and "\<forall>(m, t) \<in> set us. playable m \<and> \<not> interrupted_of m"
      and "k < length us"
  shows "start_at (unit_at sc dur us s k) = max (cursor_before sc dur us s k) (snd (us ! k))
       \<and> buffer_duration (unit_at sc dur us s k) = dur (payload_of (fst (us ! k)))
       \<and> \<not> source_stopped (unit_at sc dur us s k)
       \<and> snd (us ! k) \<le> start_at (unit_at sc dur us s k)
       \<and> cursor_before sc dur us s 0 = nextStartTimeRef s
       \<and> cursor_before sc dur us s (Suc k) =
            start_at (unit_at sc dur us s k) + buffer_duration (unit_at sc dur us s k)
       \<and> (Suc k < length us \<longrightarrow>
            start_at (unit_at sc dur us s (Suc k)) =
              max (start_at (unit_at sc dur us s k) + buffer_duration (unit_at sc dur us s k))
                  (snd (us ! Suc k)))
       \<and> ((\<forall>i < k. snd (us ! i) \<le> nextStartTimeRef s + sum_list (take i (durations dur us)))
            \<longrightarrow> cursor_before sc dur us s k =
                  nextStartTimeRef s + sum_list (take k (durations dur us)))"
proof -
  note u = unit_scheduled [OF assms(1,2)]
  have a: "unit_at sc dur us s k =
           \<lparr>start_at = max (cursor_before sc dur us s k) (snd (us ! k)),
            buffer_duration = dur (payload_of (fst (us ! k))),
            source_stopped = False\<rparr>"
    using u(1) [OF assms(3)] .
  have b: "cursor_before sc dur us s (Suc k) =
           max (cursor_before sc dur us s k) (snd (us ! k)) + dur (payload_of (fst (us ! k)))"
    using u(2) [OF assms(3)] .
  have c: "start_at (unit_at sc dur us s (Suc k)) =
              max (cursor_before sc dur us s (Suc k)) (snd (us ! Suc k))"
    if "Suc k < length us"
    using u(1) [OF that, of sc dur] by simp
  have d: "cursor_before sc dur us s k =
                  nextStartTimeRef s + sum_list (take k (durations dur us))"
    if "\<forall>i < k. snd (us ! i) \<le> nextStartTimeRef s + sum_list (take i (durations dur us))"
    using cursor_is_sum [OF assms(1,2) _ that] assms(3) by simp
  have e: "cursor_before sc dur us s 0 = nextStartTimeRef s"
    by (simp add: cursor_before_def)
  show ?thesis
    using a b c d e by simp
qed

text \<open>The theorem at the second of three units fed to the connected state.\<close>

theorem units_back_to_back_witness:
  "outputAudioContextRef connected_state = Some 1
   \<and> nextStartTimeRef connected_state = 0
   \<and> cursor_before mount_scope half_second three_units connected_state (Suc 0) = 1 / 2
   \<and> start_at (unit_at mount_scope half_second three_units connected_state (Suc 0)) = 1 / 2
   \<and> buffer_duration (unit_at mount_scope half_second three_units connected_state (Suc 0)) = 1 / 2
   \<and> \<not> source_stopped (unit_at mount_scope half_second three_units connected_state (Suc 0))
   \<and> cursor_before mount_scope half_second three_units connected_state (Suc (Suc 0)) = 1
   \<and> start_at (unit_at mount_scope half_second three_units connected_state (Suc (Suc 0))) = 2"
proof -
  let ?c = "cursor_before mount_scope half_second three_units connected_state"
  let ?u = "unit_at mount_scope half_second three_units connected_state"
  have o: "outputAudioContextRef connected_state \<noteq> None"
    by (simp add: connected_state_fields)
  have u: "\<forall>(m, t) \<in> set three_units. playable m \<and> \<not> interrupted_of m"
    by (simp add: three_units_def unit_message_facts)
  have k: "Suc 0 < length three_units" and k': "Suc (Suc 0) < length three_units"
    by (simp_all add: three_units_def)
  have n: "snd (three_units ! Suc 0) = 1 / 4" "snd (three_units ! Suc (Suc 0)) = 2"
    "dur (payload_of (fst (three_units ! Suc 0))) = dur ''AAAA''" for dur :: "string \<Rightarrow> real"
    by (simp_all add: three_units_def unit_message_facts)
  have sm: "sum_list (take (Suc 0) (durations half_second three_units)) = 1 / 2"
    by (simp add: durations_def three_units_def half_second_def)
  have ontime: "\<forall>i < Suc 0. snd (three_units ! i)
      \<le> nextStartTimeRef connected_state + sum_list (take i (durations half_second three_units))"
    by (simp add: three_units_def connected_state_fields)
  note t = units_back_to_back [where s = connected_state and us = three_units and k = "Suc 0"
        and sc = mount_scope and dur = half_second, OF o u k]
  have c1: "?c (Suc 0) = 1 / 2"
    using t ontime sm by (simp add: connected_state_fields)
  have s1: "start_at (?u (Suc 0)) = 1 / 2"
    using t c1 n(1) by simp
  have d1: "buffer_duration (?u (Suc 0)) = 1 / 2"
    using t n(3) [of half_second] by (simp add: half_second_def)
  have ns: "\<not> source_stopped (?u (Suc 0))"
    using t by simp
  have c2: "?c (Suc (Suc 0)) = 1"
    using t s1 d1 by simp
  have s2: "start_at (?u (Suc (Suc 0))) = 2"
    using t k' s1 d1 n(2) by simp
  show ?thesis
    using c1 s1 d1 ns c2 s2 by (simp add: connected_state_fields)
qed

text \<open>
  C1 as stated takes the cursor before unit \<open>k\<close> to be the sum of the durations of the
  units before it, clamped to the clock. The first unit of a session arrives at clock
  5 and lasts one second, the second arrives at clock 5.5: the cursor before the second
  is 6 and it is started at 6, where the sum of the durations is 1 and its clamp to the
  clock is 5.5.
\<close>

theorem cursor_is_not_sum_of_durations:
  "nextStartTimeRef connected_state = 0
   \<and> durations one_second late_units = [1, 1]
   \<and> cursor_before mount_scope one_second late_units connected_state 1 = 6
   \<and> start_at (unit_at mount_scope one_second late_units connected_state 1) = 6
   \<and> max (sum_list (take 1 (durations one_second late_units))) (snd (late_units ! 1)) = 11 / 2"
proof -
  have o: "outputAudioContextRef connected_state \<noteq> None"
    by (simp add: connected_state_fields)
  have u: "\<forall>(m, t) \<in> set late_units. playable m \<and> \<not> interrupted_of m"
    by (simp add: late_units_def unit_message_facts)
  have c0: "cursor_before mount_scope one_second late_units connected_state 0 = 0"
    by (simp add: cursor_before_def connected_state_fields)
  have c1: "cursor_before mount_scope one_second late_units connected_state (Suc 0) = 6"
    using unit_scheduled(2) [where s = connected_state and us = late_units and k = 0
        and sc = mount_scope and dur = one_second, OF o u] c0
    by (simp add: late_units_def one_second_def)
  have s1: "start_at (unit_at mount_scope one_second late_units connected_state (Suc 0)) = 6"
    using unit_scheduled(1) [where s = connected_state and us = late_units and k = "Suc 0"
        and sc = mount_scope and dur = one_second, OF o u] c1
    by (simp add: late_units_def)
  have d: "durations one_second late_units = [1, 1]"
    by (simp add: durations_def late_units_def one_second_def)
  show ?thesis
    using c1 s1 d by (simp add: connected_state_fields late_units_def)
qed

end
